theory Spec2Isabelle
  imports Complex_Main "HOL-Library.Word" "HOL-Library.Sublist"
begin

section \<open>JavaScript strings\<close>

text \<open>
  A JavaScript string is a sequence of UTF-16 code units and \<open>length\<close> counts code
  units, so a string is modelled as a list of 16-bit words.  \<open>js\<close> embeds an ASCII
  literal; a code unit outside ASCII is written as a number.
\<close>

type_synonym code_unit = "16 word"
type_synonym jsstring = "code_unit list"

definition js :: "string \<Rightarrow> jsstring" where
  "js s = map of_char s"

text \<open>
  The code units matched by \<open>\s\<close> in a regular expression and removed by
  \<open>String.prototype.trim\<close>: the WhiteSpace and LineTerminator productions of ECMAScript
  (TAB, LF, VT, FF, CR, SP, NBSP, U+1680, U+2000..U+200A, LS, PS, U+202F, U+205F,
  U+3000, BOM).
\<close>

definition isWhiteSpace :: "code_unit \<Rightarrow> bool" where
  "isWhiteSpace c =
     (c = 0x09 \<or> c = 0x0A \<or> c = 0x0B \<or> c = 0x0C \<or> c = 0x0D \<or> c = 0x20 \<or> c = 0xA0
      \<or> c = 0x1680 \<or> (0x2000 \<le> c \<and> c \<le> 0x200A) \<or> c = 0x2028 \<or> c = 0x2029
      \<or> c = 0x202F \<or> c = 0x205F \<or> c = 0x3000 \<or> c = 0xFEFF)"

text \<open>\<open>\d\<close> without the unicode flag: the ten ASCII digits.\<close>

definition isDigit :: "code_unit \<Rightarrow> bool" where
  "isDigit c = (0x30 \<le> c \<and> c \<le> 0x39)"

text \<open>\<open>s.trim()\<close>: white space removed from both ends.\<close>

definition trim :: "jsstring \<Rightarrow> jsstring" where
  "trim s = rev (dropWhile isWhiteSpace (rev (dropWhile isWhiteSpace s)))"

text \<open>\<open>s.startsWith(d)\<close> at position 0, the test used by \<open>includes\<close> and \<open>split\<close> below.\<close>

fun startsWith :: "jsstring \<Rightarrow> jsstring \<Rightarrow> bool" where
  "startsWith [] s = True"
| "startsWith (d # ds) [] = False"
| "startsWith (d # ds) (c # cs) = (d = c \<and> startsWith ds cs)"

text \<open>\<open>s.includes(d)\<close>: \<open>d\<close> occurs in \<open>s\<close> as a contiguous run of code units.\<close>

fun includes_str :: "jsstring \<Rightarrow> jsstring \<Rightarrow> bool" where
  "includes_str d [] = startsWith d []"
| "includes_str d (c # cs) = (startsWith d (c # cs) \<or> includes_str d cs)"

text \<open>
  \<open>s.split(sep)\<close> for a string separator and no limit: the string is scanned from the
  left, every occurrence of \<open>sep\<close> ends the current piece and the scan resumes behind
  it; the last piece is what remains, so the result of a non-empty separator is never
  the empty array.  With the empty separator the pieces are the single code units.
\<close>

fun splitFrom :: "jsstring \<Rightarrow> jsstring \<Rightarrow> jsstring \<Rightarrow> jsstring list" where
  "splitFrom sep piece [] = [piece]"
| "splitFrom sep piece (c # cs) =
     (if sep \<noteq> [] \<and> startsWith sep (c # cs)
      then piece # splitFrom sep [] (drop (length sep - 1) cs)
      else splitFrom sep (piece @ [c]) cs)"

definition split :: "jsstring \<Rightarrow> jsstring \<Rightarrow> jsstring list" where
  "split sep s = (if sep = [] then map (\<lambda>c. [c]) s else splitFrom sep [] s)"

text \<open>
  \<open>a || b\<close> on a value that is a string or \<open>undefined\<close> (\<open>None\<close>): the empty string and
  \<open>undefined\<close> are falsy.
\<close>

definition orElse :: "jsstring option \<Rightarrow> jsstring \<Rightarrow> jsstring" where
  "orElse a b = (case a of None \<Rightarrow> b | Some s \<Rightarrow> if s = [] then b else s)"

text \<open>\<open>xs[i]\<close> on an array: \<open>undefined\<close> out of range.\<close>

definition elemAt :: "'a list \<Rightarrow> nat \<Rightarrow> 'a option" where
  "elemAt xs i = (if i < length xs then Some (xs ! i) else None)"

section \<open>The place-list parser (services/geminiService.ts, fetchNearbyHistoricalPlaces)\<close>

record place =
  name :: jsstring
  type :: jsstring
  distance :: jsstring

text \<open>The three delimiters, \<open>'|'\<close>, \<open>' - '\<close> and \<open>':'\<close>.\<close>

definition pipe :: jsstring where "pipe = js ''|''"
definition dash :: jsstring where "dash = js '' - ''"
definition colon :: jsstring where "colon = js '':''"

text \<open>The predicate of the first \<open>filter\<close>, on a line that is already trimmed.\<close>

definition keepLine :: "jsstring \<Rightarrow> bool" where
  "keepLine l = (length l > 5 \<and> (includes_str pipe l \<or> includes_str colon l \<or> includes_str dash l))"

text \<open>The \<open>if / else if\<close> chain that fills \<open>parts\<close>; it starts as the empty array.\<close>

definition lineParts :: "jsstring \<Rightarrow> jsstring list" where
  "lineParts line =
     (if includes_str pipe line then split pipe line
      else if includes_str dash line then split dash line
      else if includes_str colon line then split colon line
      else [])"

text \<open>
  A member of the character class \<open>[\d\s\.\-\*]\<close>, and
  \<open>rawName.replace(/^[\d\s\.\-\*]+/, '')\<close>: the greedy \<open>+\<close> on a character class
  anchored at the start removes the longest prefix made of such code units.
\<close>

definition isMarker :: "code_unit \<Rightarrow> bool" where
  "isMarker c = (isDigit c \<or> isWhiteSpace c \<or> c = 0x2E \<or> c = 0x2D \<or> c = 0x2A)"

definition stripMarkers :: "jsstring \<Rightarrow> jsstring" where
  "stripMarkers s = dropWhile isMarker s"

text \<open>The constant \<open>name\<close> of the mapping function, before the \<open>||\<close> fallback.\<close>

definition cleanName :: "jsstring \<Rightarrow> jsstring" where
  "cleanName line = trim (stripMarkers (orElse (elemAt (lineParts line) 0) []))"

definition parseLine :: "jsstring \<Rightarrow> place" where
  "parseLine line =
     (let parts = lineParts line;
          nm = cleanName line;
          ty = trim (orElse (elemAt parts 1) (js ''Point of Interest''));
          di = trim (orElse (elemAt parts 2) [])
      in \<lparr> name = orElse (Some nm) (js ''Interesting Place''), type = ty, distance = di \<rparr>)"

text \<open>
  The pipeline on the array of lines:
  \<open>.map(trim).filter(keep)\<close>, then \<open>.map(parse one line).filter(p => p.name.length > 2)\<close>.
\<close>

definition parseLines :: "jsstring list \<Rightarrow> place list" where
  "parseLines ls =
     filter (\<lambda>p. length (name p) > 2) (map parseLine (filter keepLine (map trim ls)))"

text \<open>The parsing step on the raw text: \<open>text.split('\n')\<close> and the pipeline.\<close>

definition parsePlaces :: "jsstring \<Rightarrow> place list" where
  "parsePlaces text = parseLines (split [0x0A] text)"

section \<open>Calls to the generation provider (services/geminiService.ts)\<close>

text \<open>
  A thrown value, with its \<open>message\<close> property (\<open>undefined\<close> when it has none), and
  the outcome of a call to code outside the repository: it throws or it returns.
\<close>

datatype exn = Exn (message: "jsstring option")

datatype 'a outcome = Threw exn | Returned 'a

text \<open>
  The part of the provider's response that the services read:
  \<open>response.text\<close> and \<open>response.candidates?.[0]?.content?.parts?.[0]?.inlineData?.data\<close>;
  each property may be \<open>undefined\<close>.
\<close>

record Blob =
  data :: "jsstring option"

record Part =
  inlineData :: "Blob option"

record Content =
  parts :: "Part list option"

record Candidate =
  content :: "Content option"

record GenerateContentResponse =
  response_text :: "jsstring option"
  candidates :: "Candidate list option"

text \<open>
  \<open>fetchNearbyHistoricalPlaces\<close>: \<open>getAI()\<close>, the \<open>await\<close> of \<open>generateContent\<close>, then the
  parsing step on \<open>response.text || ""\<close>.  Nothing is caught: what either call throws
  rejects the promise.
\<close>

definition fetchNearbyHistoricalPlaces ::
    "unit outcome \<Rightarrow> GenerateContentResponse outcome \<Rightarrow> exn + place list" where
  "fetchNearbyHistoricalPlaces ai generated =
     (case ai of
        Threw e \<Rightarrow> Inl e
      | Returned _ \<Rightarrow>
          (case generated of
             Threw e \<Rightarrow> Inl e
           | Returned response \<Rightarrow> Inr (parsePlaces (orElse (response_text response) []))))"

text \<open>
  \<open>generateNarration\<close>: \<open>getAI()\<close> is called before the \<open>try\<close> block; the \<open>await\<close> of
  \<open>generateContent\<close> and the optional chain are inside it, and the \<open>catch\<close> warns on
  the console and returns the empty string.  The second component is what was passed
  to \<open>console.warn\<close>.
\<close>

definition narrationPayload :: "GenerateContentResponse \<Rightarrow> jsstring option" where
  "narrationPayload response =
     Option.bind (candidates response) (\<lambda>cs.
     Option.bind (elemAt cs 0) (\<lambda>c.
     Option.bind (content c) (\<lambda>ct.
     Option.bind (parts ct) (\<lambda>ps.
     Option.bind (elemAt ps 0) (\<lambda>p.
     Option.bind (inlineData p) data)))))"

definition generateNarration ::
    "unit outcome \<Rightarrow> GenerateContentResponse outcome \<Rightarrow> (exn + jsstring) \<times> jsstring list" where
  "generateNarration ai generated =
     (case ai of
        Threw e \<Rightarrow> (Inl e, [])
      | Returned _ \<Rightarrow>
          (case generated of
             Threw e \<Rightarrow> (Inr [], [js ''Failed to generate audio''])
           | Returned response \<Rightarrow> (Inr (orElse (narrationPayload response) []), [])))"

section \<open>The discovery session (App.tsx)\<close>

datatype OutputFormat = textOnly | audioOnly | textAndAudio

record coords =
  latitude :: real
  longitude :: real

record Link =
  uri :: "jsstring option"
  title :: "jsstring option"

record GroundingChunk =
  web :: "Link option"
  maps :: "Link option"

text \<open>The component's state: one field for each \<open>useState\<close>.\<close>

record app =
  landmarkName :: jsstring
  history :: jsstring
  audioData :: "jsstring option"
  citations :: "GroundingChunk list"
  language :: jsstring
  outputFormat :: OutputFormat
  nearbyPlaces :: "place list"
  location :: "coords option"
  isLoading :: bool
  isLoadingMore :: bool
  loadingStep :: jsstring
  error :: jsstring

text \<open>
  The arguments of a call to \<open>fetchNearbyHistoricalPlaces\<close>; the handlers below return
  the calls they made, in order, next to the new state.
\<close>

record query =
  q_location :: coords
  q_language :: jsstring
  q_excludeNames :: "jsstring list"

text \<open>
  The translation lookup \<open>t(key, vars)\<close> reads the table of translations.ts, which is not
  part of the sources at hand; the handlers take it as the parameter \<open>t\<close>.
\<close>

type_synonym translate = "jsstring \<Rightarrow> (jsstring \<times> jsstring) list \<Rightarrow> jsstring"

definition resetState :: "app \<Rightarrow> app" where
  "resetState s =
     s\<lparr> landmarkName := [], history := [], audioData := None, citations := [],
        nearbyPlaces := [], error := [] \<rparr>"

text \<open>What the geolocation API answers: it is missing, it fails, or it gives a position.\<close>

datatype geolocation = NoGeolocation | PositionError jsstring | Position coords

definition noGeolocationMessage :: jsstring where
  "noGeolocationMessage =
     js ''Seu navegador n'' @ [0xE3] @ js ''o suporta geolocaliza'' @ [0xE7, 0xE3] @ js ''o.''"

definition nothingFoundMessage :: jsstring where
  "nothingFoundMessage =
     js ''Nenhum local hist'' @ [0xF3] @ js ''rico encontrado exatamente nesta ''
       @ [0xE1] @ js ''rea. Tente se mover um pouco.''"

text \<open>
  \<open>handleDiscoverNearby\<close>, with the answer of the geolocation API and the settled result
  of the one call to \<open>fetchNearbyHistoricalPlaces\<close> (made without exclusion names).
\<close>

definition handleDiscoverNearby ::
    "translate \<Rightarrow> geolocation \<Rightarrow> exn + place list \<Rightarrow> app \<Rightarrow> app \<times> query list" where
  "handleDiscoverNearby t geo fetched s =
     (let s1 = (resetState (s\<lparr> isLoading := True, error := [] \<rparr>))
                 \<lparr> loadingStep := t (js ''findingLocation'') [] \<rparr>
      in case geo of
           NoGeolocation \<Rightarrow> (s1\<lparr> error := noGeolocationMessage, isLoading := False \<rparr>, [])
         | PositionError m \<Rightarrow>
             (s1\<lparr> error := t (js ''locationError'') [] @ js '' ('' @ m @ js '')'',
                  isLoading := False \<rparr>, [])
         | Position c \<Rightarrow>
             (let s2 = s1\<lparr> location := Some c, loadingStep := t (js ''searchingNearby'') [] \<rparr>;
                  s3 = (case fetched of
                          Inl e \<Rightarrow>
                            s2\<lparr> error := js ''Erro ao buscar lugares: ''
                                          @ orElse (message e) (t (js ''error'') []) \<rparr>
                        | Inr places \<Rightarrow>
                            if length places = 0 then s2\<lparr> error := nothingFoundMessage \<rparr>
                            else s2\<lparr> nearbyPlaces := places \<rparr>)
              in (s3\<lparr> isLoading := False \<rparr>,
                  [\<lparr> q_location = c, q_language = language s, q_excludeNames = [] \<rparr>])))"

text \<open>
  \<open>handleLoadMore\<close>, with the settled result of its one call to
  \<open>fetchNearbyHistoricalPlaces\<close>.  The names of the places already listed go into the
  query; the places that come back are appended as they are.
\<close>

definition handleLoadMore :: "translate \<Rightarrow> exn + place list \<Rightarrow> app \<Rightarrow> app \<times> query list" where
  "handleLoadMore t fetched s =
     (case location s of
        None \<Rightarrow> (s, [])
      | Some loc \<Rightarrow>
          (let s1 = s\<lparr> isLoadingMore := True, error := [] \<rparr>;
               currentNames = map name (nearbyPlaces s);
               s2 = (case fetched of
                       Inl e \<Rightarrow>
                         s1\<lparr> error := js ''Erro ao carregar mais: ''
                                       @ orElse (message e) (t (js ''error'') []) \<rparr>
                     | Inr newPlaces \<Rightarrow>
                         if length newPlaces = 0 then s1
                         else s1\<lparr> nearbyPlaces := nearbyPlaces s1 @ newPlaces \<rparr>)
           in (s2\<lparr> isLoadingMore := False \<rparr>,
               [\<lparr> q_location = loc, q_language = language s, q_excludeNames = currentNames \<rparr>])))"

text \<open>
  \<open>processOutput\<close>, with the settled results of \<open>fetchLandmarkDetails\<close> and of
  \<open>generateNarration\<close>; the second is awaited only when the output format asks for audio.
\<close>

definition processOutput ::
    "translate \<Rightarrow> jsstring \<Rightarrow> exn + jsstring \<times> GroundingChunk list \<Rightarrow> exn + jsstring
       \<Rightarrow> app \<Rightarrow> app" where
  "processOutput t nm details narration s =
     (let s1 = s\<lparr> loadingStep := t (js ''fetchingHistory'') [(js ''landmarkName'', nm)] \<rparr>;
          caught = (\<lambda>e s'. s'\<lparr> error := orElse (message e) (t (js ''error'') []) \<rparr>);
          s2 = (case details of
                  Inl e \<Rightarrow> caught e s1
                | Inr (txt, cits) \<Rightarrow>
                    (let s3 = s1\<lparr> history := txt, citations := cits \<rparr>
                     in if outputFormat s \<noteq> textOnly
                        then (let s4 = s3\<lparr> loadingStep := t (js ''creatingAudio'') [] \<rparr>
                              in case narration of
                                   Inl e \<Rightarrow> caught e s4
                                 | Inr audio \<Rightarrow> s4\<lparr> audioData := Some audio \<rparr>)
                        else s3))
      in s2\<lparr> isLoading := False \<rparr>)"

text \<open>
  The two render conditions of the result card that decide whether the narration
  player is mounted, and the condition of the error box.
\<close>

definition rendersAudioPlayer :: "app \<Rightarrow> bool" where
  "rendersAudioPlayer s =
     ((landmarkName s \<noteq> [] \<and> (history s \<noteq> [] \<or> orElse (audioData s) [] \<noteq> []) \<and> \<not> isLoading s)
      \<and> orElse (audioData s) [] \<noteq> [] \<and> outputFormat s \<noteq> textOnly)"

definition rendersError :: "app \<Rightarrow> bool" where
  "rendersError s = (error s \<noteq> [])"

text \<open>The values the \<open>useState\<close> calls start from; the language comes from the browser.\<close>

definition initialApp :: "jsstring \<Rightarrow> app" where
  "initialApp lang =
     \<lparr> landmarkName = [], history = [], audioData = None, citations = [], language = lang,
       outputFormat = textAndAudio, nearbyPlaces = [], location = None, isLoading = False,
       isLoadingMore = False, loadingStep = [], error = [] \<rparr>"

text \<open>\<open>t\<close> over a table without entries: \<open>if (!text) return key\<close>.\<close>

definition noTranslations :: translate where
  "noTranslations key vars = key"

text \<open>
  Modelled from the spec: the normalized name of a place, "the case-insensitive,
  whitespace-trimmed name".  The sources have no such function and compare no names.
  Case is folded on the letters A to Z only; the theorems that mention a normalisation
  hold for every function in its place.
\<close>

definition toLowerASCII :: "code_unit \<Rightarrow> code_unit" where
  "toLowerASCII c = (if 0x41 \<le> c \<and> c \<le> 0x5A then c + 0x20 else c)"

definition normalizedName :: "jsstring \<Rightarrow> jsstring" where
  "normalizedName s = map toLowerASCII (trim s)"

section \<open>The narration player (components/AudioPlayer.tsx)\<close>

text \<open>
  The decoded clip is a sequence of samples.  \<open>decode\<close> and \<open>decodeAudioData\<close>
  (utils/audio) are not among the sources: what they produce reaches the player as
  an event.
\<close>

type_synonym AudioBuffer = "int list"

text \<open>
  A source node as the player sets it up: \<open>source.buffer\<close>, and the offset into the
  buffer at which \<open>source.start()\<close> begins, which is 0 for a call without arguments.
\<close>

record AudioBufferSourceNode =
  buffer :: AudioBuffer
  startOffset :: nat

text \<open>
  The two pieces of React state and the three refs of the component, then what lies
  outside it: the \<open>audioData\<close> prop the effect last ran for (\<open>None\<close> before the
  first render), the nodes created on the audio context (a node is known by its
  index), the nodes that are started and neither stopped nor ended, the nodes that
  \<open>stop()\<close> has silenced and whose \<open>ended\<close> event the browser has yet to dispatch, and
  the number of \<open>processAudio\<close> calls suspended at their \<open>await\<close>.
\<close>

record player =
  isPlaying :: bool
  isReady :: bool
  audioContextRef :: bool
  audioSourceRef :: "nat option"
  audioBufferRef :: "AudioBuffer option"
  prop_audioData :: "jsstring option"
  sourceNodes :: "AudioBufferSourceNode list"
  sounding :: "nat list"
  ending :: "nat list"
  decoding :: nat

definition initialPlayer :: player where
  "initialPlayer =
     \<lparr> isPlaying = False, isReady = False, audioContextRef = False, audioSourceRef = None,
       audioBufferRef = None, prop_audioData = None, sourceNodes = [], sounding = [],
       ending = [], decoding = 0 \<rparr>"

text \<open>
  \<open>node.stop()\<close>: a node that sounds falls silent, and the browser will dispatch its
  \<open>ended\<close> event later; on a node that has stopped or ended already nothing happens.
\<close>

definition stopNode :: "nat \<Rightarrow> player \<Rightarrow> player" where
  "stopNode i s =
     (if i \<in> set (sounding s)
      then s\<lparr> sounding := removeAll i (sounding s), ending := ending s @ [i] \<rparr>
      else s)"

text \<open>The cleanup function the effect returns.\<close>

definition cleanup :: "player \<Rightarrow> player" where
  "cleanup s = (case audioSourceRef s of None \<Rightarrow> s | Some i \<Rightarrow> stopNode i s)"

text \<open>
  \<open>processAudio\<close> up to its \<open>await\<close>, and its continuation with what decoding gave
  (\<open>None\<close>: \<open>decode\<close> or \<open>decodeAudioData\<close> threw, the \<open>catch\<close> logs and leaves the state).
\<close>

definition processAudio :: "jsstring \<Rightarrow> player \<Rightarrow> player" where
  "processAudio d s =
     (if d \<noteq> [] \<and> audioContextRef s then s\<lparr> isReady := False, decoding := Suc (decoding s) \<rparr>
      else s)"

definition processAudio_resume :: "AudioBuffer option \<Rightarrow> player \<Rightarrow> player" where
  "processAudio_resume r s =
     (if decoding s = 0 then s
      else case r of
             None \<Rightarrow> s\<lparr> decoding := decoding s - 1 \<rparr>
           | Some b \<Rightarrow> s\<lparr> audioBufferRef := Some b, isReady := True, decoding := decoding s - 1 \<rparr>)"

text \<open>The body of the effect: the audio context is created if there is none yet.\<close>

definition effect :: "jsstring \<Rightarrow> player \<Rightarrow> player" where
  "effect d s = processAudio d (s\<lparr> audioContextRef := True \<rparr>)"

text \<open>
  A render with the prop \<open>audioData = d\<close>.  The effect depends on \<open>[audioData]\<close>: it runs
  on the first render, and on a later one when the prop has changed, after the cleanup
  of the previous run.
\<close>

definition render :: "jsstring \<Rightarrow> player \<Rightarrow> player" where
  "render d s =
     (case prop_audioData s of
        None \<Rightarrow> (effect d s)\<lparr> prop_audioData := Some d \<rparr>
      | Some d' \<Rightarrow> if d' = d then s else (effect d (cleanup s))\<lparr> prop_audioData := Some d \<rparr>)"

definition handlePlayPause :: "player \<Rightarrow> player" where
  "handlePlayPause s =
     (if \<not> isReady s \<or> \<not> audioContextRef s then s
      else case audioBufferRef s of
             None \<Rightarrow> s
           | Some b \<Rightarrow>
               if isPlaying s
               then (case audioSourceRef s of
                       None \<Rightarrow> s
                     | Some i \<Rightarrow> (stopNode i s)\<lparr> audioSourceRef := None \<rparr>)\<lparr> isPlaying := False \<rparr>
               else s\<lparr> sourceNodes := sourceNodes s @ [\<lparr> buffer = b, startOffset = 0 \<rparr>],
                       sounding := sounding s @ [length (sourceNodes s)],
                       audioSourceRef := Some (length (sourceNodes s)),
                       isPlaying := True \<rparr>)"

text \<open>The \<open>onended\<close> callback that \<open>handlePlayPause\<close> installs on every node.\<close>

definition onended :: "player \<Rightarrow> player" where
  "onended s = s\<lparr> isPlaying := False, audioSourceRef := None \<rparr>"

text \<open>
  What can happen to a mounted player: a render with a payload, a decoding that
  settles, a press of the button, the \<open>ended\<close> event of a node, the unmount.
  \<open>Ended i\<close> is the browser dispatching the \<open>ended\<close> event of node \<open>i\<close>, which runs the
  \<open>onended\<close> installed on it: either the clip of a sounding node has run out, or the
  node was silenced by \<open>stop()\<close> some time before.  Every node gets the event once.
\<close>

datatype event = Submit jsstring | Decoded "AudioBuffer option" | Toggle | Ended nat | Unmount

fun step :: "player \<Rightarrow> event \<Rightarrow> player" where
  "step s (Submit d) = render d s"
| "step s (Decoded r) = processAudio_resume r s"
| "step s Toggle = handlePlayPause s"
| "step s (Ended i) =
     (if i \<in> set (sounding s) then onended (s\<lparr> sounding := removeAll i (sounding s) \<rparr>)
      else if i \<in> set (ending s) then onended (s\<lparr> ending := removeAll i (ending s) \<rparr>)
      else s)"
| "step s Unmount = cleanup s"

fun run :: "player \<Rightarrow> event list \<Rightarrow> player" where
  "run s [] = s"
| "run s (e # es) = run (step s e) es"




section \<open>A session used in the examples\<close>

text \<open>
  A discovery at the coordinates (40.7128, -74.0060) whose response lists two places,
  and a response without text.
\<close>

definition exampleCoords :: coords where
  "exampleCoords = \<lparr> latitude = 40.7128, longitude = - 74.0060 \<rparr>"

definition exampleResponse :: GenerateContentResponse where
  "exampleResponse =
     \<lparr> response_text =
         Some (js ''Statue | Monument | 50m'' @ [0x0A] @ js ''Park | Green Space | 200m''),
       candidates = None \<rparr>"

definition emptyResponse :: GenerateContentResponse where
  "emptyResponse = \<lparr> response_text = None, candidates = None \<rparr>"

definition exampleSession :: app where
  "exampleSession =
     fst (handleDiscoverNearby noTranslations (Position exampleCoords)
            (fetchNearbyHistoricalPlaces (Returned ()) (Returned exampleResponse))
            (initialApp (js ''English'')))"

definition bridge :: place where
  "bridge = \<lparr> name = js ''Old Bridge'', type = js ''Monument'', distance = js ''120m'' \<rparr>"

text \<open>A narration payload and the clip it decodes to.\<close>

definition examplePayload :: jsstring where
  "examplePayload = js ''UklGRg==''"

definition exampleClip :: AudioBuffer where
  "exampleClip = [0, 12, - 7]"

text \<open>A second payload and its clip.\<close>

definition otherPayload :: jsstring where
  "otherPayload = js ''AAAA''"

definition otherClip :: AudioBuffer where
  "otherClip = [3, - 1]"

section \<open>Strings: substrings and trimming\<close>

lemma startsWith_iff: "startsWith d s \<longleftrightarrow> (\<exists>b. s = d @ b)"
  by (induction d s rule: startsWith.induct) auto

lemma includes_str_iff: "includes_str d s \<longleftrightarrow> (\<exists>a b. s = a @ d @ b)"
proof (induction s)
  case Nil
  then show ?case by (simp add: startsWith_iff)
next
  case (Cons c cs)
  show ?case
  proof
    assume "includes_str d (c # cs)"
    then consider "startsWith d (c # cs)" | "includes_str d cs" by auto
    then show "\<exists>a b. c # cs = a @ d @ b"
    proof cases
      case 1
      then obtain b where "c # cs = d @ b" by (auto simp: startsWith_iff)
      then have "c # cs = [] @ d @ b" by simp
      then show ?thesis by blast
    next
      case 2
      then obtain a b where "cs = a @ d @ b" using Cons.IH by blast
      then have "c # cs = (c # a) @ d @ b" by simp
      then show ?thesis by blast
    qed
  next
    assume "\<exists>a b. c # cs = a @ d @ b"
    then obtain a b where ab: "c # cs = a @ d @ b" by blast
    show "includes_str d (c # cs)"
    proof (cases a)
      case Nil
      with ab have "startsWith d (c # cs)" by (auto simp: startsWith_iff)
      then show ?thesis by simp
    next
      case (Cons x a')
      with ab have "cs = a' @ d @ b" by simp
      then show ?thesis using Cons.IH by auto
    qed
  qed
qed

text \<open>A trimmed string is a contiguous part of the string it was trimmed from.\<close>

lemma trim_infix: "\<exists>a b. s = a @ trim s @ b"
proof -
  let ?t = "dropWhile isWhiteSpace s"
  have 1: "s = takeWhile isWhiteSpace s @ ?t" by simp
  have "rev (takeWhile isWhiteSpace (rev ?t) @ dropWhile isWhiteSpace (rev ?t)) = ?t"
    by (simp only: takeWhile_dropWhile_id rev_rev_ident)
  then have 2: "?t = trim s @ rev (takeWhile isWhiteSpace (rev ?t))"
    by (simp only: rev_append trim_def)
  from 1 2 have "s = takeWhile isWhiteSpace s @ trim s @ rev (takeWhile isWhiteSpace (rev ?t))"
    by simp
  then show ?thesis by blast
qed

lemma includes_str_trim: "includes_str d (trim s) \<Longrightarrow> includes_str d s"
proof -
  assume "includes_str d (trim s)"
  then obtain a b where t: "trim s = a @ d @ b" by (auto simp: includes_str_iff)
  obtain p q where "s = p @ trim s @ q" using trim_infix by blast
  with t have "s = (p @ a) @ d @ (b @ q)" by simp
  then show ?thesis unfolding includes_str_iff by blast
qed

section \<open>The parser, line by line\<close>

lemma parseLines_append: "parseLines (xs @ ys) = parseLines xs @ parseLines ys"
  by (simp add: parseLines_def)

lemma parseLines_single:
  "parseLines [l] =
     (if keepLine (trim l) \<and> length (name (parseLine (trim l))) > 2
      then [parseLine (trim l)] else [])"
  by (simp add: parseLines_def)

lemma parseLines_Cons: "parseLines (l # ys) = parseLines [l] @ parseLines ys"
  using parseLines_append [of "[l]" ys] by simp

lemma name_parseLine:
  "name (parseLine line) =
     (if cleanName line = [] then js ''Interesting Place'' else cleanName line)"
  by (simp add: parseLine_def orElse_def Let_def)

lemma length_placeholder: "length (js ''Interesting Place'') = 17"
  by (simp add: js_def)

section \<open>Claims about the parser\<close>

text \<open>
  C7.  The line "Palace of Culture | Cultural Center | 420m" parses to exactly one
  candidate, named "Palace of Culture", of category "Cultural Center", at distance
  "420m"; the line "1. Old Bridge - Monument - 120m" parses to exactly one candidate,
  named "Old Bridge" (the list marker is stripped from the name only), of category
  "Monument", at distance "120m".
\<close>

theorem parsePlaces_documented_lines:
  "parsePlaces (js ''Palace of Culture | Cultural Center | 420m'') =
     [\<lparr> name = js ''Palace of Culture'', type = js ''Cultural Center'', distance = js ''420m'' \<rparr>]
   \<and> parsePlaces (js ''1. Old Bridge - Monument - 120m'') =
     [\<lparr> name = js ''Old Bridge'', type = js ''Monument'', distance = js ''120m'' \<rparr>]"
  by code_simp

text \<open>
  C8.  The parsing step is a function of its input alone and every operation in it is
  defined on every string, so it returns a sequence for every input.  The empty text
  and the text "hi" give the empty sequence.  A line whose trimmed length is at most 5,
  or which contains none of the delimiters (before or after trimming), contributes no
  candidate: the lines around it parse as if it were not there; and a text made of such
  lines only parses to the empty sequence.
\<close>

theorem parsePlaces_discards_noise:
  "parsePlaces [] = [] \<and> parsePlaces (js ''hi'') = [] \<and>
   (\<forall>xs l ys.
      length (trim l) \<le> 5
        \<or> \<not> (includes_str pipe l \<or> includes_str dash l \<or> includes_str colon l)
        \<or> \<not> (includes_str pipe (trim l) \<or> includes_str dash (trim l)
              \<or> includes_str colon (trim l))
      \<longrightarrow> parseLines (xs @ l # ys) = parseLines (xs @ ys)) \<and>
   (\<forall>raw.
      (\<forall>l \<in> set (split [0x0A] raw).
          length (trim l) \<le> 5
            \<or> \<not> (includes_str pipe l \<or> includes_str dash l \<or> includes_str colon l))
      \<longrightarrow> parsePlaces raw = [])"
proof (intro conjI allI impI)
  show "parsePlaces [] = []" by code_simp
  show "parsePlaces (js ''hi'') = []" by code_simp
next
  fix xs l ys
  assume "length (trim l) \<le> 5
        \<or> \<not> (includes_str pipe l \<or> includes_str dash l \<or> includes_str colon l)
        \<or> \<not> (includes_str pipe (trim l) \<or> includes_str dash (trim l)
              \<or> includes_str colon (trim l))"
  then have "\<not> keepLine (trim l)"
    using includes_str_trim by (auto simp: keepLine_def)
  then have "parseLines [l] = []" by (simp add: parseLines_single)
  then show "parseLines (xs @ l # ys) = parseLines (xs @ ys)"
    using parseLines_Cons [of l ys] by (simp add: parseLines_append)
next
  fix raw
  assume a: "\<forall>l \<in> set (split [0x0A] raw).
      length (trim l) \<le> 5
        \<or> \<not> (includes_str pipe l \<or> includes_str dash l \<or> includes_str colon l)"
  have "\<forall>l \<in> set (split [0x0A] raw). \<not> keepLine (trim l)"
    using a includes_str_trim by (auto simp: keepLine_def)
  then have "filter keepLine (map trim (split [0x0A] raw)) = []"
    by (auto simp: filter_empty_conv)
  then show "parsePlaces raw = []" by (simp add: parsePlaces_def parseLines_def)
qed

text \<open>
  The line "hi" between two well-formed lines, and the two-line text "hello world",
  "Statue": the premises hold and the candidates are those of the other lines.
\<close>

theorem parsePlaces_discards_noise_witness:
  "length (trim (js ''hi'')) \<le> 5 \<and>
   parseLines ([js ''Statue | Monument | 50m''] @ js ''hi'' # [js ''Park | Green Space | 200m''])
     = parseLines ([js ''Statue | Monument | 50m''] @ [js ''Park | Green Space | 200m'']) \<and>
   split [0x0A] (js ''hello world'' @ [0x0A] @ js ''Statue'') = [js ''hello world'', js ''Statue''] \<and>
   parsePlaces (js ''hello world'' @ [0x0A] @ js ''Statue'') = []"
proof -
  have h0: "split [0x0A] (js ''hello world'' @ [0x0A] @ js ''Statue'')
      = [js ''hello world'', js ''Statue'']"
    by code_simp
  have h1: "length (trim (js ''hi'')) \<le> 5" by code_simp
  have h2: "\<forall>l \<in> set (split [0x0A] (js ''hello world'' @ [0x0A] @ js ''Statue'')).
       length (trim l) \<le> 5
         \<or> \<not> (includes_str pipe l \<or> includes_str dash l \<or> includes_str colon l)"
    by code_simp
  have c1: "parseLines ([js ''Statue | Monument | 50m''] @ js ''hi''
                # [js ''Park | Green Space | 200m''])
     = parseLines ([js ''Statue | Monument | 50m''] @ [js ''Park | Green Space | 200m''])"
    using parsePlaces_discards_noise [THEN conjunct2, THEN conjunct2, THEN conjunct1,
        THEN spec, THEN spec, THEN spec] disjI1 [OF h1]
    by (rule mp)
  have c2: "parsePlaces (js ''hello world'' @ [0x0A] @ js ''Statue'') = []"
    using parsePlaces_discards_noise [THEN conjunct2, THEN conjunct2, THEN conjunct2,
        THEN spec] h2
    by (rule mp)
  show ?thesis
    by (intro conjI) (rule h0 h1 c1 c2)+
qed

text \<open>
  C2.  On the retained line "Old Bridge |   | 120m" the second field is three spaces,
  which is empty after trimming; the candidate's category is the empty string, not
  "Point of Interest": the default is chosen before the field is trimmed, so it is
  taken only for a field that is absent or empty as it stands.
\<close>

theorem blank_category_is_not_defaulted:
  "keepLine (trim (js ''Old Bridge |   | 120m'')) \<and>
   elemAt (lineParts (trim (js ''Old Bridge |   | 120m''))) 1 = Some (js ''   '') \<and>
   trim (js ''   '') = [] \<and>
   parsePlaces (js ''Old Bridge |   | 120m'') =
     [\<lparr> name = js ''Old Bridge'', type = [], distance = js ''120m'' \<rparr>]"
  by code_simp

text \<open>
  C3, as the code has it.  A line whose cleaned name has one or two characters
  contributes no candidate.  A retained line whose cleaned name is empty does
  contribute one, under the name "Interesting Place", in its place in line order.
  Every candidate the parser returns has a name longer than two characters.
\<close>

theorem short_names_discarded_empty_names_replaced:
  "(\<forall>xs l ys.
      0 < length (cleanName (trim l)) \<and> length (cleanName (trim l)) \<le> 2
      \<longrightarrow> parseLines (xs @ l # ys) = parseLines (xs @ ys)) \<and>
   (\<forall>xs l ys.
      keepLine (trim l) \<and> cleanName (trim l) = []
      \<longrightarrow> parseLines (xs @ l # ys) = parseLines xs @ parseLine (trim l) # parseLines ys
        \<and> name (parseLine (trim l)) = js ''Interesting Place'') \<and>
   (\<forall>raw. \<forall>p \<in> set (parsePlaces raw). length (name p) > 2)"
proof (intro conjI allI impI ballI)
  fix xs l ys
  assume "0 < length (cleanName (trim l)) \<and> length (cleanName (trim l)) \<le> 2"
  then have "\<not> length (name (parseLine (trim l))) > 2" by (auto simp: name_parseLine)
  then have "parseLines [l] = []" by (simp add: parseLines_single)
  then show "parseLines (xs @ l # ys) = parseLines (xs @ ys)"
    using parseLines_Cons [of l ys] by (simp add: parseLines_append)
next
  fix xs l ys
  assume a: "keepLine (trim l) \<and> cleanName (trim l) = []"
  then show "name (parseLine (trim l)) = js ''Interesting Place''"
    by (simp add: name_parseLine)
  with a have "parseLines [l] = [parseLine (trim l)]"
    by (simp add: parseLines_single length_placeholder)
  then show "parseLines (xs @ l # ys) = parseLines xs @ parseLine (trim l) # parseLines ys"
    using parseLines_Cons [of l ys] by (simp add: parseLines_append)
next
  fix raw p
  assume "p \<in> set (parsePlaces raw)"
  then show "length (name p) > 2" by (auto simp: parsePlaces_def parseLines_def)
qed

text \<open>
  The line "A | Monument | 50m" (cleaned name "A") between two well-formed lines, the
  line "1. | Monument | 50m" (cleaned name empty) after one, and the candidate "Statue".
\<close>

theorem short_names_discarded_empty_names_replaced_witness:
  "(0 < length (cleanName (trim (js ''A | Monument | 50m'')))
      \<and> length (cleanName (trim (js ''A | Monument | 50m''))) \<le> 2) \<and>
   parseLines ([js ''Statue | Monument | 50m''] @ js ''A | Monument | 50m''
       # [js ''Park | Green Space | 200m''])
     = parseLines ([js ''Statue | Monument | 50m''] @ [js ''Park | Green Space | 200m'']) \<and>
   (keepLine (trim (js ''1. | Monument | 50m''))
      \<and> cleanName (trim (js ''1. | Monument | 50m'')) = []) \<and>
   name (parseLine (trim (js ''1. | Monument | 50m''))) = js ''Interesting Place'' \<and>
   \<lparr> name = js ''Statue'', type = js ''Monument'', distance = js ''50m'' \<rparr>
      \<in> set (parsePlaces (js ''Statue | Monument | 50m'')) \<and>
   length (name \<lparr> name = js ''Statue'', type = js ''Monument'', distance = js ''50m'' \<rparr>) > 2"
proof -
  have h1: "0 < length (cleanName (trim (js ''A | Monument | 50m'')))
      \<and> length (cleanName (trim (js ''A | Monument | 50m''))) \<le> 2"
    by code_simp
  have h2: "keepLine (trim (js ''1. | Monument | 50m''))
      \<and> cleanName (trim (js ''1. | Monument | 50m'')) = []"
    by code_simp
  have h3: "\<lparr> name = js ''Statue'', type = js ''Monument'', distance = js ''50m'' \<rparr>
      \<in> set (parsePlaces (js ''Statue | Monument | 50m''))"
    by code_simp
  have c1: "parseLines ([js ''Statue | Monument | 50m''] @ js ''A | Monument | 50m''
       # [js ''Park | Green Space | 200m''])
     = parseLines ([js ''Statue | Monument | 50m''] @ [js ''Park | Green Space | 200m''])"
    using short_names_discarded_empty_names_replaced [THEN conjunct1,
        THEN spec, THEN spec, THEN spec] h1
    by (rule mp)
  have c2: "name (parseLine (trim (js ''1. | Monument | 50m''))) = js ''Interesting Place''"
    using short_names_discarded_empty_names_replaced [THEN conjunct2, THEN conjunct1,
        THEN spec, THEN spec, THEN spec, THEN mp, OF h2, of "[]" "[]"]
    by (rule conjunct2)
  have c3: "length (name \<lparr> name = js ''Statue'', type = js ''Monument'', distance = js ''50m'' \<rparr>) > 2"
    using short_names_discarded_empty_names_replaced [THEN conjunct2, THEN conjunct2,
        THEN spec, THEN bspec, OF h3] .
  show ?thesis
    using h1 h2 h3 c1 c2 c3 by (intro conjI) (simp_all only:)
qed

text \<open>
  The retained line "1. | Monument | 50m": its name field is empty after the marker
  is stripped, and the parser returns a candidate for it.
\<close>

theorem empty_name_counterexample:
  "keepLine (trim (js ''1. | Monument | 50m'')) \<and>
   length (cleanName (trim (js ''1. | Monument | 50m''))) \<le> 2 \<and>
   parsePlaces (js ''1. | Monument | 50m'') =
     [\<lparr> name = js ''Interesting Place'', type = js ''Monument'', distance = js ''50m'' \<rparr>]"
  by code_simp

section \<open>Claims about the discovery session\<close>

lemma exampleSession_location: "location exampleSession = Some exampleCoords"
  by (simp add: exampleSession_def handleDiscoverNearby_def Let_def split: sum.splits)

lemma exampleSession_places:
  "nearbyPlaces exampleSession =
     [\<lparr> name = js ''Statue'', type = js ''Monument'', distance = js ''50m'' \<rparr>,
      \<lparr> name = js ''Park'', type = js ''Green Space'', distance = js ''200m'' \<rparr>]"
  by code_simp

lemma emptyResponse_parses_to_nothing:
  "parsePlaces (orElse (response_text emptyResponse) []) = []"
  by code_simp

text \<open>
  C9.  \<open>handleLoadMore\<close> only appends: the list before the call is a prefix of the list
  after it, the list does not get shorter, and when a location is known and the query
  settles with candidates, the list after the call is the list before it followed by
  those candidates in the order they came in.
\<close>

theorem handleLoadMore_appends:
  "prefix (nearbyPlaces s) (nearbyPlaces (fst (handleLoadMore t fetched s))) \<and>
   length (nearbyPlaces s) \<le> length (nearbyPlaces (fst (handleLoadMore t fetched s))) \<and>
   (\<forall>loc new. location s = Some loc \<and> fetched = Inr new
      \<longrightarrow> nearbyPlaces (fst (handleLoadMore t fetched s)) = nearbyPlaces s @ new)"
  by (auto simp: handleLoadMore_def Let_def split: option.splits sum.splits)

text \<open>The example session, loading one more place.\<close>

theorem handleLoadMore_appends_witness:
  "location exampleSession = Some exampleCoords \<and>
   nearbyPlaces (fst (handleLoadMore noTranslations (Inr [bridge]) exampleSession))
     = nearbyPlaces exampleSession @ [bridge] \<and>
   prefix (nearbyPlaces exampleSession)
     (nearbyPlaces (fst (handleLoadMore noTranslations (Inr [bridge]) exampleSession)))"
proof -
  note h = exampleSession_location
  have c1: "nearbyPlaces (fst (handleLoadMore noTranslations (Inr [bridge]) exampleSession))
     = nearbyPlaces exampleSession @ [bridge]"
    using handleLoadMore_appends [THEN conjunct2, THEN conjunct2, THEN spec, THEN spec]
      conjI [OF h refl]
    by (rule mp)
  have c2: "prefix (nearbyPlaces exampleSession)
     (nearbyPlaces (fst (handleLoadMore noTranslations (Inr [bridge]) exampleSession)))"
    using handleLoadMore_appends by (rule conjunct1)
  show ?thesis
    by (intro conjI) (rule h c1 c2)+
qed

text \<open>
  C1, as the code has it.  When a location is known and the query settles with
  candidates, \<open>handleLoadMore\<close> appends them unfiltered; the names already listed are
  only sent along with the query as the exclusion names.  Hence, for every
  normalisation \<open>nf\<close> of names, no two entries share a normalized name after the call
  exactly when no two entries did before it, the new candidates have pairwise
  different normalized names, and none of them has the normalized name of an entry
  that was already listed.
\<close>

theorem handleLoadMore_distinct_iff:
  "location s = Some loc \<Longrightarrow> fetched = Inr new \<Longrightarrow>
   nearbyPlaces (fst (handleLoadMore t fetched s)) = nearbyPlaces s @ new \<and>
   map q_excludeNames (snd (handleLoadMore t fetched s)) = [map name (nearbyPlaces s)] \<and>
   (distinct (map (nf \<circ> name) (nearbyPlaces (fst (handleLoadMore t fetched s)))) \<longleftrightarrow>
      distinct (map (nf \<circ> name) (nearbyPlaces s)) \<and> distinct (map (nf \<circ> name) new) \<and>
      set (map (nf \<circ> name) (nearbyPlaces s)) \<inter> set (map (nf \<circ> name) new) = {})"
proof -
  assume a: "location s = Some loc" "fetched = Inr new"
  then have 1: "nearbyPlaces (fst (handleLoadMore t fetched s)) = nearbyPlaces s @ new"
    by (simp add: handleLoadMore_def Let_def)
  from a have 2:
    "map q_excludeNames (snd (handleLoadMore t fetched s)) = [map name (nearbyPlaces s)]"
    by (simp add: handleLoadMore_def Let_def)
  show ?thesis using 2 by (simp add: 1)
qed

text \<open>
  The example session, loading a place with a new name: the list stays free of
  duplicates.
\<close>

theorem handleLoadMore_distinct_iff_witness:
  "location exampleSession = Some exampleCoords \<and>
   map q_excludeNames (snd (handleLoadMore noTranslations (Inr [bridge]) exampleSession))
     = [map name (nearbyPlaces exampleSession)] \<and>
   distinct (map (normalizedName \<circ> name)
     (nearbyPlaces (fst (handleLoadMore noTranslations (Inr [bridge]) exampleSession))))"
proof -
  note h = exampleSession_location
  note c = handleLoadMore_distinct_iff [OF h refl, of noTranslations "[bridge]" normalizedName]
  have d: "distinct (map (normalizedName \<circ> name) (nearbyPlaces exampleSession))
      \<and> distinct (map (normalizedName \<circ> name) [bridge])
      \<and> set (map (normalizedName \<circ> name) (nearbyPlaces exampleSession))
          \<inter> set (map (normalizedName \<circ> name) [bridge]) = {}"
    unfolding exampleSession_places by code_simp
  have c2: "map q_excludeNames (snd (handleLoadMore noTranslations (Inr [bridge]) exampleSession))
     = [map name (nearbyPlaces exampleSession)]"
    using c [THEN conjunct2] by (rule conjunct1)
  have c3: "distinct (map (normalizedName \<circ> name)
     (nearbyPlaces (fst (handleLoadMore noTranslations (Inr [bridge]) exampleSession))))"
    using c [THEN conjunct2, THEN conjunct2] d by (rule iffD2)
  show ?thesis
    by (intro conjI) (rule h c2 c3)+
qed

text \<open>
  The example session, loading more when the provider answers with the same two
  lines again: "Statue" and "Park" are listed twice.
\<close>

theorem handleLoadMore_duplicates_counterexample:
  "location exampleSession = Some exampleCoords \<and>
   map name (nearbyPlaces (fst (handleLoadMore noTranslations
        (fetchNearbyHistoricalPlaces (Returned ()) (Returned exampleResponse)) exampleSession)))
     = [js ''Statue'', js ''Park'', js ''Statue'', js ''Park''] \<and>
   \<not> distinct (map (normalizedName \<circ> name)
        (nearbyPlaces (fst (handleLoadMore noTranslations
           (fetchNearbyHistoricalPlaces (Returned ()) (Returned exampleResponse)) exampleSession))))"
  by code_simp

text \<open>
  C4, as the code has it.  When a discovery query parses to no candidate,
  \<open>handleDiscoverNearby\<close> sets the "nothing found" message as the error, which the
  error box shows; the list of places is empty (it is cleared when the discovery
  starts), loading has ended and exactly one query was made.  When a load-more query
  parses to no candidate, \<open>handleLoadMore\<close> reports nothing: the error is empty, the
  list of places is what it was, loading has ended and exactly one query was made.
  Either handler returns a state.
\<close>

theorem empty_result_handling:
  "(parsePlaces (orElse (response_text r) []) = [] \<longrightarrow>
      (let res = handleDiscoverNearby t (Position c)
                   (fetchNearbyHistoricalPlaces (Returned ()) (Returned r)) s
       in error (fst res) = nothingFoundMessage \<and> rendersError (fst res) \<and>
          nearbyPlaces (fst res) = [] \<and> \<not> isLoading (fst res) \<and> length (snd res) = 1)) \<and>
   (parsePlaces (orElse (response_text r) []) = [] \<and> location s = Some loc \<longrightarrow>
      (let res = handleLoadMore t (fetchNearbyHistoricalPlaces (Returned ()) (Returned r)) s
       in error (fst res) = [] \<and> \<not> rendersError (fst res) \<and>
          nearbyPlaces (fst res) = nearbyPlaces s \<and> \<not> isLoadingMore (fst res) \<and>
          length (snd res) = 1))"
  by (simp add: handleDiscoverNearby_def handleLoadMore_def fetchNearbyHistoricalPlaces_def
      resetState_def rendersError_def nothingFoundMessage_def Let_def)

text \<open>The example session and the response without text, for both handlers.\<close>

theorem empty_result_handling_witness:
  "parsePlaces (orElse (response_text emptyResponse) []) = [] \<and>
   location exampleSession = Some exampleCoords \<and>
   (let res = handleDiscoverNearby noTranslations (Position exampleCoords)
                (fetchNearbyHistoricalPlaces (Returned ()) (Returned emptyResponse)) exampleSession
    in error (fst res) = nothingFoundMessage \<and> rendersError (fst res) \<and>
       nearbyPlaces (fst res) = [] \<and> \<not> isLoading (fst res) \<and> length (snd res) = 1) \<and>
   (let res = handleLoadMore noTranslations
                (fetchNearbyHistoricalPlaces (Returned ()) (Returned emptyResponse)) exampleSession
    in error (fst res) = [] \<and> \<not> rendersError (fst res) \<and>
       nearbyPlaces (fst res) = nearbyPlaces exampleSession \<and> \<not> isLoadingMore (fst res) \<and>
       length (snd res) = 1)"
proof -
  note h1 = emptyResponse_parses_to_nothing
  note h2 = exampleSession_location
  note c1 = empty_result_handling [THEN conjunct1, THEN mp, OF h1,
      of noTranslations exampleCoords exampleSession]
  note c2 = empty_result_handling [THEN conjunct2, THEN mp, OF conjI [OF h1 h2],
      of noTranslations]
  show ?thesis
    by (intro conjI) (rule h1 h2 c1 c2)+
qed

text \<open>
  The example session, loading more when the response has no text: nothing parses,
  and no error is set for the error box to show.
\<close>

theorem handleLoadMore_empty_is_silent_counterexample:
  "parsePlaces (orElse (response_text emptyResponse) []) = [] \<and>
   location exampleSession = Some exampleCoords \<and>
   error (fst (handleLoadMore noTranslations
        (fetchNearbyHistoricalPlaces (Returned ()) (Returned emptyResponse)) exampleSession)) = [] \<and>
   \<not> rendersError (fst (handleLoadMore noTranslations
        (fetchNearbyHistoricalPlaces (Returned ()) (Returned emptyResponse)) exampleSession))"
  by code_simp

section \<open>Claims about the narration call\<close>

text \<open>
  C10, as the code has it.  Once \<open>getAI()\<close> has returned, \<open>generateNarration\<close> returns a
  string whatever the provider call does: the empty string, after one warning on the
  console, when the call throws, and the empty string when the response carries no
  audio payload.  What \<open>getAI()\<close> itself throws is not caught and reaches the caller.
  Downstream, \<open>processOutput\<close> stores the empty narration without touching the error,
  the narration player is not mounted for it, and a player rendered with the empty
  payload starts no decoding and does not become ready.
\<close>

theorem generateNarration_swallows_provider_failures:
  "(\<forall>g. \<exists>v. fst (generateNarration (Returned ()) g) = Inr v) \<and>
   (\<forall>e. generateNarration (Returned ()) (Threw e)
          = (Inr [], [js ''Failed to generate audio''])) \<and>
   (\<forall>r. narrationPayload r = None
        \<longrightarrow> generateNarration (Returned ()) (Returned r) = (Inr [], [])) \<and>
   (\<forall>e g. fst (generateNarration (Threw e) g) = Inl e) \<and>
   (\<forall>t nm d s.
      error (processOutput t nm (Inr d) (Inr []) s) = error s \<and>
      \<not> rendersAudioPlayer (processOutput t nm (Inr d) (Inr []) s) \<and>
      (outputFormat s \<noteq> textOnly
         \<longrightarrow> audioData (processOutput t nm (Inr d) (Inr []) s) = Some [])) \<and>
   (\<forall>s. isReady (render [] s) = isReady s \<and> decoding (render [] s) = decoding s)"
proof (intro conjI allI)
  fix g show "\<exists>v. fst (generateNarration (Returned ()) g) = Inr v"
    by (cases g) (simp_all add: generateNarration_def)
next
  fix e show "generateNarration (Returned ()) (Threw e)
      = (Inr [], [js ''Failed to generate audio''])"
    by (simp add: generateNarration_def)
next
  fix r show "narrationPayload r = None
      \<longrightarrow> generateNarration (Returned ()) (Returned r) = (Inr [], [])"
    by (simp add: generateNarration_def orElse_def)
next
  fix e g show "fst (generateNarration (Threw e) g) = Inl e"
    by (simp add: generateNarration_def)
next
  fix t nm d s
  show "error (processOutput t nm (Inr d) (Inr []) s) = error s"
    by (cases d) (simp add: processOutput_def Let_def)
  show "\<not> rendersAudioPlayer (processOutput t nm (Inr d) (Inr []) s)"
    by (cases d) (simp add: processOutput_def rendersAudioPlayer_def orElse_def Let_def)
  show "outputFormat s \<noteq> textOnly
      \<longrightarrow> audioData (processOutput t nm (Inr d) (Inr []) s) = Some []"
    by (cases d) (simp add: processOutput_def Let_def)
next
  fix s
  show "isReady (render [] s) = isReady s"
    by (simp add: render_def effect_def processAudio_def cleanup_def stopNode_def
        split: option.splits)
  show "decoding (render [] s) = decoding s"
    by (simp add: render_def effect_def processAudio_def cleanup_def stopNode_def
        split: option.splits)
qed

text \<open>
  The response without candidates, and the example session (its output format is
  text and audio) after the history of "Statue" has been fetched.
\<close>

theorem generateNarration_swallows_provider_failures_witness:
  "narrationPayload emptyResponse = None \<and>
   generateNarration (Returned ()) (Returned emptyResponse) = (Inr [], []) \<and>
   outputFormat exampleSession \<noteq> textOnly \<and>
   audioData (processOutput noTranslations (js ''Statue'') (Inr (js ''A statue.'', []))
      (Inr []) exampleSession) = Some []"
proof -
  have h1: "narrationPayload emptyResponse = None"
    by (simp add: narrationPayload_def emptyResponse_def)
  have h2: "outputFormat exampleSession \<noteq> textOnly"
    by (simp add: exampleSession_def handleDiscoverNearby_def resetState_def initialApp_def
        Let_def split: sum.splits)
  have c1: "generateNarration (Returned ()) (Returned emptyResponse) = (Inr [], [])"
    using generateNarration_swallows_provider_failures [THEN conjunct2, THEN conjunct2,
        THEN conjunct1, THEN spec] h1
    by (rule mp)
  have c2: "audioData (processOutput noTranslations (js ''Statue'') (Inr (js ''A statue.'', []))
      (Inr []) exampleSession) = Some []"
    using generateNarration_swallows_provider_failures [THEN conjunct2, THEN conjunct2,
        THEN conjunct2, THEN conjunct2, THEN conjunct1, THEN spec, THEN spec, THEN spec,
        THEN spec, THEN conjunct2, THEN conjunct2] h2
    by (rule mp)
  show ?thesis
    by (intro conjI) (rule h1 h2 c1 c2)+
qed

text \<open>
  \<open>getAI()\<close> throws (the client cannot be constructed): the error reaches the caller of
  \<open>generateNarration\<close>, and nothing is logged.
\<close>

theorem generateNarration_client_failure_counterexample:
  "generateNarration
     (Threw (Exn (Some (js ''An API Key must be set when running in a browser''))))
     (Returned emptyResponse)
   = (Inl (Exn (Some (js ''An API Key must be set when running in a browser''))), [])"
  by (simp add: generateNarration_def)

section \<open>Claims about the narration player\<close>
















text \<open>
  C6.  The player is rendered with a payload and the decoding settles.  The button is
  pressed three times (play, stop, play) before the browser dispatches the \<open>ended\<close>
  event of the first node, which \<open>stop()\<close> silenced; then that event runs the first
  node's \<open>onended\<close>, which clears \<open>isPlaying\<close> and the ref although the second node is
  the current one and sounds; the next press starts a third node: two nodes sound.
  The unmount stops the node in the ref and leaves the second one sounding.
  Separately, when a second payload is rendered while the first is being decoded and
  a node is started on the first clip, the second decoding replaces the buffer while
  that node sounds.
\<close>

theorem stale_ended_leaves_two_nodes_sounding:
  "sounding (run initialPlayer
      [Submit examplePayload, Decoded (Some exampleClip), Toggle, Toggle, Toggle]) = [1] \<and>
   ending (run initialPlayer
      [Submit examplePayload, Decoded (Some exampleClip), Toggle, Toggle, Toggle]) = [0] \<and>
   audioSourceRef (run initialPlayer
      [Submit examplePayload, Decoded (Some exampleClip), Toggle, Toggle, Toggle]) = Some 1 \<and>
   sounding (run initialPlayer
      [Submit examplePayload, Decoded (Some exampleClip), Toggle, Toggle, Toggle, Ended 0]) = [1] \<and>
   audioSourceRef (run initialPlayer
      [Submit examplePayload, Decoded (Some exampleClip), Toggle, Toggle, Toggle, Ended 0]) = None \<and>
   isPlaying (run initialPlayer
      [Submit examplePayload, Decoded (Some exampleClip), Toggle, Toggle, Toggle, Ended 0]) = False \<and>
   sounding (run initialPlayer
      [Submit examplePayload, Decoded (Some exampleClip), Toggle, Toggle, Toggle, Ended 0, Toggle])
     = [1, 2] \<and>
   sounding (run initialPlayer
      [Submit examplePayload, Decoded (Some exampleClip), Toggle, Toggle, Toggle, Ended 0, Toggle,
       Unmount]) = [1] \<and>
   sounding (run initialPlayer
      [Submit examplePayload, Submit otherPayload, Decoded (Some exampleClip), Toggle,
       Decoded (Some otherClip)]) = [0] \<and>
   audioBufferRef (run initialPlayer
      [Submit examplePayload, Submit otherPayload, Decoded (Some exampleClip), Toggle])
     = Some exampleClip \<and>
   audioBufferRef (run initialPlayer
      [Submit examplePayload, Submit otherPayload, Decoded (Some exampleClip), Toggle,
       Decoded (Some otherClip)]) = Some otherClip"
  by code_simp

end
